theory Spec2Isabelle
  imports Complex_Main
begin

section \<open>Python values and the interpreter's primitives\<close>

text \<open>
  The handlers receive \<^verbatim>\<open>arguments: Dict[str, Any]\<close>, decoded from JSON. A value is
  one of the JSON scalars; strings are kept as their UTF-8 bytes. A Python \<^verbatim>\<open>float\<close> is
  a value of an unspecified carrier \<open>'f\<close>: what the interpreter does with floats (and with
  operands that are not integers) is a parameter of the model, the \<open>runtime\<close> below, so
  every theorem that quantifies over the runtime holds whatever floating point does.
  JSON arrays and objects are not argument values of the model: no tool schema of the
  repository declares one.
\<close>

datatype 'f pyval = PNone | PBool bool | PInt int | PFloat 'f | PStr string

text \<open>
  An exception raised by the interpreter: an instance of \<^verbatim>\<open>Exception\<close>, given by the name
  of its class and by \<^verbatim>\<open>str(e)\<close>, the only thing the handlers read from it.
\<close>

datatype exn = Exn (exn_class: string) (exn_str: string)

record 'f runtime =
  rt_add :: "'f pyval \<Rightarrow> 'f pyval \<Rightarrow> exn + 'f pyval"
  rt_sub :: "'f pyval \<Rightarrow> 'f pyval \<Rightarrow> exn + 'f pyval"
  rt_mul :: "'f pyval \<Rightarrow> 'f pyval \<Rightarrow> exn + 'f pyval"
  rt_truediv :: "'f pyval \<Rightarrow> 'f pyval \<Rightarrow> exn + 'f pyval"
  rt_pow :: "'f pyval \<Rightarrow> 'f pyval \<Rightarrow> exn + 'f pyval"
  rt_lt :: "'f pyval \<Rightarrow> 'f pyval \<Rightarrow> exn + bool"
  rt_gt :: "'f pyval \<Rightarrow> 'f pyval \<Rightarrow> exn + bool"
  rt_float_is_zero :: "'f \<Rightarrow> bool"
  rt_sqrt :: "'f pyval \<Rightarrow> exn + 'f pyval"
  rt_int :: "'f pyval \<Rightarrow> exn + int"
  rt_float_str :: "'f \<Rightarrow> string"
  rt_randint :: "int \<Rightarrow> int \<Rightarrow> exn + int"

definition bind_exn :: "exn + 'a \<Rightarrow> ('a \<Rightarrow> exn + 'b) \<Rightarrow> exn + 'b" where
  "bind_exn m f = (case m of Inl e \<Rightarrow> Inl e | Inr v \<Rightarrow> f v)"

text \<open>\<^verbatim>\<open>bool\<close> is a subclass of \<^verbatim>\<open>int\<close>: in arithmetic \<^verbatim>\<open>True\<close> is 1 and \<^verbatim>\<open>False\<close> is 0.\<close>

fun int_like :: "'f pyval \<Rightarrow> int option" where
  "int_like (PInt i) = Some i"
| "int_like (PBool b) = Some (if b then 1 else 0)"
| "int_like PNone = None"
| "int_like (PFloat x) = None"
| "int_like (PStr s) = None"

text \<open>
  The operators on two integers are computed here, on unbounded integers as in Python;
  every other pair of operands goes to the runtime.
\<close>

definition py_add :: "'f runtime \<Rightarrow> 'f pyval \<Rightarrow> 'f pyval \<Rightarrow> exn + 'f pyval" where
  "py_add rt x y =
     (case (int_like x, int_like y) of
        (Some a, Some b) \<Rightarrow> Inr (PInt (a + b))
      | _ \<Rightarrow> rt_add rt x y)"

definition py_sub :: "'f runtime \<Rightarrow> 'f pyval \<Rightarrow> 'f pyval \<Rightarrow> exn + 'f pyval" where
  "py_sub rt x y =
     (case (int_like x, int_like y) of
        (Some a, Some b) \<Rightarrow> Inr (PInt (a - b))
      | _ \<Rightarrow> rt_sub rt x y)"

definition py_mul :: "'f runtime \<Rightarrow> 'f pyval \<Rightarrow> 'f pyval \<Rightarrow> exn + 'f pyval" where
  "py_mul rt x y =
     (case (int_like x, int_like y) of
        (Some a, Some b) \<Rightarrow> Inr (PInt (a * b))
      | _ \<Rightarrow> rt_mul rt x y)"

text \<open>\<^verbatim>\<open>a / b\<close> is true division: its result is a float even on two integers.\<close>

definition py_truediv :: "'f runtime \<Rightarrow> 'f pyval \<Rightarrow> 'f pyval \<Rightarrow> exn + 'f pyval" where
  "py_truediv rt x y = rt_truediv rt x y"

text \<open>An integer to a non-negative integer power is an integer; to a negative one, a float.\<close>

definition py_pow :: "'f runtime \<Rightarrow> 'f pyval \<Rightarrow> 'f pyval \<Rightarrow> exn + 'f pyval" where
  "py_pow rt x y =
     (case (int_like x, int_like y) of
        (Some a, Some b) \<Rightarrow> if 0 \<le> b then Inr (PInt (a ^ nat b)) else rt_pow rt x y
      | _ \<Rightarrow> rt_pow rt x y)"

definition py_lt :: "'f runtime \<Rightarrow> 'f pyval \<Rightarrow> 'f pyval \<Rightarrow> exn + bool" where
  "py_lt rt x y =
     (case (int_like x, int_like y) of
        (Some a, Some b) \<Rightarrow> Inr (a < b)
      | _ \<Rightarrow> rt_lt rt x y)"

definition py_gt :: "'f runtime \<Rightarrow> 'f pyval \<Rightarrow> 'f pyval \<Rightarrow> exn + bool" where
  "py_gt rt x y =
     (case (int_like x, int_like y) of
        (Some a, Some b) \<Rightarrow> Inr (a > b)
      | _ \<Rightarrow> rt_gt rt x y)"

text \<open>\<^verbatim>\<open>b == 0\<close> never raises: \<^verbatim>\<open>None\<close> and strings are simply not equal to 0.\<close>

fun py_eq_zero :: "'f runtime \<Rightarrow> 'f pyval \<Rightarrow> bool" where
  "py_eq_zero rt (PInt i) = (i = 0)"
| "py_eq_zero rt (PBool b) = (\<not> b)"
| "py_eq_zero rt (PFloat x) = rt_float_is_zero rt x"
| "py_eq_zero rt PNone = False"
| "py_eq_zero rt (PStr s) = False"

definition py_int :: "'f runtime \<Rightarrow> 'f pyval \<Rightarrow> exn + int" where
  "py_int rt x = (case int_like x of Some a \<Rightarrow> Inr a | None \<Rightarrow> rt_int rt x)"

definition math_sqrt :: "'f runtime \<Rightarrow> 'f pyval \<Rightarrow> exn + 'f pyval" where
  "math_sqrt rt x = rt_sqrt rt x"

definition math_factorial :: "int \<Rightarrow> exn + int" where
  "math_factorial n =
     (if n < 0 then Inl (Exn ''ValueError'' ''factorial() not defined for negative values'')
      else Inr (int (fact (nat n))))"

definition random_randint :: "'f runtime \<Rightarrow> int \<Rightarrow> int \<Rightarrow> exn + int" where
  "random_randint rt a b = rt_randint rt a b"

subsection \<open>Formatting\<close>

definition digit_char :: "nat \<Rightarrow> char" where
  "digit_char n = ''0123456789'' ! n"

fun str_nat :: "nat \<Rightarrow> string" where
  "str_nat n = (if n < 10 then [digit_char n] else str_nat (n div 10) @ [digit_char (n mod 10)])"

declare str_nat.simps [simp del]

definition str_int :: "int \<Rightarrow> string" where
  "str_int i = (if i < 0 then ''-'' @ str_nat (nat (- i)) else str_nat (nat i))"

text \<open>What an f-string writes for \<^verbatim>\<open>{v}\<close>, that is \<^verbatim>\<open>str(v)\<close>.\<close>

fun py_str :: "'f runtime \<Rightarrow> 'f pyval \<Rightarrow> string" where
  "py_str rt PNone = ''None''"
| "py_str rt (PBool b) = (if b then ''True'' else ''False'')"
| "py_str rt (PInt i) = str_int i"
| "py_str rt (PFloat x) = rt_float_str rt x"
| "py_str rt (PStr s) = s"

text \<open>The signs the calculator writes, as UTF-8: U+00D7, U+00F7 and U+221A.\<close>

definition times_sign :: string where
  "times_sign = [CHR 0xC3, CHR 0x97]"

definition division_sign :: string where
  "division_sign = [CHR 0xC3, CHR 0xB7]"

definition sqrt_sign :: string where
  "sqrt_sign = [CHR 0xE2, CHR 0x88, CHR 0x9A]"

section \<open>Results\<close>

text \<open>
  The content blocks and results of \<^verbatim>\<open>mcp.types\<close>, with the fields the servers set.
  A \<^verbatim>\<open>TextContent\<close> has a type and a text; a \<^verbatim>\<open>TextResourceContents\<close> has a URI as well.
\<close>

datatype content_block =
    TextContent string string
  | TextResourceContents string string string


datatype CallToolResult = CallToolResult (content: "content_block list")

datatype ReadResourceResult = ReadResourceResult (contents: "content_block list")

text \<open>\<^verbatim>\<open>arguments.get(key, default)\<close>\<close>

definition dict_get :: "(string \<rightharpoonup> 'v) \<Rightarrow> string \<Rightarrow> 'v \<Rightarrow> 'v" where
  "dict_get d k dflt = (case d k of Some v \<Rightarrow> v | None \<Rightarrow> dflt)"

section \<open>The calculator server: \<^verbatim>\<open>simple-calculator/server.py\<close>\<close>

subsection \<open>\<^verbatim>\<open>handle_call_tool\<close>\<close>

text \<open>
  One definition per branch of the \<^verbatim>\<open>if\<close>/\<^verbatim>\<open>elif\<close> chain, in the order of the source.
  A branch is the code inside the \<^verbatim>\<open>try\<close>: it returns a result (\<open>Inr\<close>) or raises
  (\<open>Inl\<close>). The call to \<^verbatim>\<open>logger.error\<close> in the \<^verbatim>\<open>except\<close> clause writes a log line and
  has no part in the result; it is left out.
\<close>

definition tool_add :: "'f runtime \<Rightarrow> (string \<rightharpoonup> 'f pyval) \<Rightarrow> exn + CallToolResult" where
  "tool_add rt arguments =
     (let a = dict_get arguments ''a'' (PInt 0);
          b = dict_get arguments ''b'' (PInt 0)
      in bind_exn (py_add rt a b) (\<lambda>result.
           Inr (CallToolResult [TextContent ''text''
             (py_str rt a @ '' + '' @ py_str rt b @ '' = '' @ py_str rt result)])))"

definition tool_subtract :: "'f runtime \<Rightarrow> (string \<rightharpoonup> 'f pyval) \<Rightarrow> exn + CallToolResult" where
  "tool_subtract rt arguments =
     (let a = dict_get arguments ''a'' (PInt 0);
          b = dict_get arguments ''b'' (PInt 0)
      in bind_exn (py_sub rt a b) (\<lambda>result.
           Inr (CallToolResult [TextContent ''text''
             (py_str rt a @ '' - '' @ py_str rt b @ '' = '' @ py_str rt result)])))"

definition tool_multiply :: "'f runtime \<Rightarrow> (string \<rightharpoonup> 'f pyval) \<Rightarrow> exn + CallToolResult" where
  "tool_multiply rt arguments =
     (let a = dict_get arguments ''a'' (PInt 0);
          b = dict_get arguments ''b'' (PInt 0)
      in bind_exn (py_mul rt a b) (\<lambda>result.
           Inr (CallToolResult [TextContent ''text''
             (py_str rt a @ '' '' @ times_sign @ '' '' @ py_str rt b @ '' = '' @ py_str rt result)])))"

definition tool_divide :: "'f runtime \<Rightarrow> (string \<rightharpoonup> 'f pyval) \<Rightarrow> exn + CallToolResult" where
  "tool_divide rt arguments =
     (let a = dict_get arguments ''a'' (PInt 0);
          b = dict_get arguments ''b'' (PInt 1)
      in if py_eq_zero rt b
         then Inr (CallToolResult [TextContent ''text'' ''Error: Division by zero is not allowed''])
         else bind_exn (py_truediv rt a b) (\<lambda>result.
           Inr (CallToolResult [TextContent ''text''
             (py_str rt a @ '' '' @ division_sign @ '' '' @ py_str rt b @ '' = '' @ py_str rt result)])))"

definition tool_power :: "'f runtime \<Rightarrow> (string \<rightharpoonup> 'f pyval) \<Rightarrow> exn + CallToolResult" where
  "tool_power rt arguments =
     (let base = dict_get arguments ''base'' (PInt 0);
          exponent = dict_get arguments ''exponent'' (PInt 1)
      in bind_exn (py_pow rt base exponent) (\<lambda>result.
           Inr (CallToolResult [TextContent ''text''
             (py_str rt base @ ''^'' @ py_str rt exponent @ '' = '' @ py_str rt result)])))"

definition tool_square_root :: "'f runtime \<Rightarrow> (string \<rightharpoonup> 'f pyval) \<Rightarrow> exn + CallToolResult" where
  "tool_square_root rt arguments =
     (let number = dict_get arguments ''number'' (PInt 0)
      in bind_exn (py_lt rt number (PInt 0)) (\<lambda>negative.
           if negative
           then Inr (CallToolResult [TextContent ''text''
                  ''Error: Cannot calculate square root of negative number''])
           else bind_exn (math_sqrt rt number) (\<lambda>result.
             Inr (CallToolResult [TextContent ''text''
               (sqrt_sign @ py_str rt number @ '' = '' @ py_str rt result)]))))"

definition tool_random_number :: "'f runtime \<Rightarrow> (string \<rightharpoonup> 'f pyval) \<Rightarrow> exn + CallToolResult" where
  "tool_random_number rt arguments =
     (let min_val = dict_get arguments ''min'' (PInt 0);
          max_val = dict_get arguments ''max'' (PInt 100)
      in bind_exn (py_gt rt min_val max_val) (\<lambda>inverted.
           if inverted
           then Inr (CallToolResult [TextContent ''text''
                  ''Error: Minimum value cannot be greater than maximum value''])
           else bind_exn (py_int rt min_val) (\<lambda>lo.
                bind_exn (py_int rt max_val) (\<lambda>hi.
                bind_exn (random_randint rt lo hi) (\<lambda>result.
                  Inr (CallToolResult [TextContent ''text''
                    (''Random number between '' @ py_str rt min_val @ '' and ''
                       @ py_str rt max_val @ '': '' @ str_int result)]))))))"

definition tool_factorial :: "'f runtime \<Rightarrow> (string \<rightharpoonup> 'f pyval) \<Rightarrow> exn + CallToolResult" where
  "tool_factorial rt arguments =
     (let number = dict_get arguments ''number'' (PInt 0)
      in bind_exn (py_lt rt number (PInt 0)) (\<lambda>negative.
           if negative
           then Inr (CallToolResult [TextContent ''text''
                  ''Error: Factorial is not defined for negative numbers''])
           else bind_exn (py_gt rt number (PInt 170)) (\<lambda>too_large.
             if too_large
             then Inr (CallToolResult [TextContent ''text''
                    ''Error: Number too large for factorial calculation''])
             else bind_exn (py_int rt number) (\<lambda>n.
                  bind_exn (math_factorial n) (\<lambda>result.
                    Inr (CallToolResult [TextContent ''text''
                      (py_str rt number @ ''! = '' @ str_int result)]))))))"

text \<open>The body of the \<^verbatim>\<open>try\<close> statement.\<close>

definition call_tool_try :: "'f runtime \<Rightarrow> string \<Rightarrow> (string \<rightharpoonup> 'f pyval) \<Rightarrow> exn + CallToolResult" where
  "call_tool_try rt name arguments =
     (if name = ''add'' then tool_add rt arguments
      else if name = ''subtract'' then tool_subtract rt arguments
      else if name = ''multiply'' then tool_multiply rt arguments
      else if name = ''divide'' then tool_divide rt arguments
      else if name = ''power'' then tool_power rt arguments
      else if name = ''square_root'' then tool_square_root rt arguments
      else if name = ''random_number'' then tool_random_number rt arguments
      else if name = ''factorial'' then tool_factorial rt arguments
      else Inr (CallToolResult [TextContent ''text'' (''Unknown tool: '' @ name)]))"

text \<open>The handler: the \<^verbatim>\<open>try\<close> with its \<^verbatim>\<open>except Exception as e\<close> clause.\<close>

definition handle_call_tool :: "'f runtime \<Rightarrow> string \<Rightarrow> (string \<rightharpoonup> 'f pyval) \<Rightarrow> CallToolResult" where
  "handle_call_tool rt name arguments =
     (case call_tool_try rt name arguments of
        Inr result \<Rightarrow> result
      | Inl e \<Rightarrow> CallToolResult [TextContent ''text'' (''Error: '' @ exn_str e)])"

subsection \<open>\<^verbatim>\<open>handle_list_tools\<close>\<close>

text \<open>
  A \<^verbatim>\<open>Tool\<close> of \<^verbatim>\<open>mcp.types\<close> as the servers build it: a name, a description and an input
  schema. The schema is the JSON object of the source: its type, its properties in the
  order written (each with its type, its description and its default, if it has one) and
  the list of required properties.
\<close>

datatype json_property =
  Property (prop_type: string) (prop_description: string) (prop_default: "int option")

datatype input_schema =
  InputSchema (schema_type: string) (properties: "(string \<times> json_property) list")
    (required: "string list")

datatype Tool =
  Tool (tool_name: string) (tool_description: string) (inputSchema: input_schema)

definition handle_list_tools :: "Tool list" where
  "handle_list_tools =
     [Tool ''add'' ''Add two numbers together''
        (InputSchema ''object''
           [(''a'', Property ''number'' ''First number to add'' None),
            (''b'', Property ''number'' ''Second number to add'' None)]
           [''a'', ''b'']),
      Tool ''subtract'' ''Subtract second number from first number''
        (InputSchema ''object''
           [(''a'', Property ''number'' ''Number to subtract from'' None),
            (''b'', Property ''number'' ''Number to subtract'' None)]
           [''a'', ''b'']),
      Tool ''multiply'' ''Multiply two numbers''
        (InputSchema ''object''
           [(''a'', Property ''number'' ''First number to multiply'' None),
            (''b'', Property ''number'' ''Second number to multiply'' None)]
           [''a'', ''b'']),
      Tool ''divide'' ''Divide first number by second number''
        (InputSchema ''object''
           [(''a'', Property ''number'' ''Dividend (number to be divided)'' None),
            (''b'', Property ''number'' ''Divisor (number to divide by)'' None)]
           [''a'', ''b'']),
      Tool ''power'' ''Raise first number to the power of second number''
        (InputSchema ''object''
           [(''base'', Property ''number'' ''Base number'' None),
            (''exponent'', Property ''number'' ''Exponent (power)'' None)]
           [''base'', ''exponent'']),
      Tool ''square_root'' ''Calculate the square root of a number''
        (InputSchema ''object''
           [(''number'', Property ''number'' ''Number to find square root of'' None)]
           [''number'']),
      Tool ''random_number'' ''Generate a random number between min and max (inclusive)''
        (InputSchema ''object''
           [(''min'', Property ''number'' ''Minimum value (inclusive)'' (Some 0)),
            (''max'', Property ''number'' ''Maximum value (inclusive)'' (Some 100))]
           []),
      Tool ''factorial'' ''Calculate the factorial of a number (n!)''
        (InputSchema ''object''
           [(''number'', Property ''integer''
               ''Number to calculate factorial for (must be non-negative)'' None)]
           [''number''])]"

subsection \<open>\<^verbatim>\<open>handle_list_resources\<close> and \<^verbatim>\<open>handle_read_resource\<close>\<close>

datatype Resource =
  Resource (resource_uri: string) (resource_name: string) (resource_description: string)
    (mimeType: string)

definition handle_list_resources :: "Resource list" where
  "handle_list_resources =
     [Resource ''calculator://info'' ''Calculator Information''
        ''Information about this simple calculator server'' ''text/plain'',
      Resource ''calculator://help'' ''Help Documentation''
        ''Detailed help and usage examples'' ''text/markdown'',
      Resource ''calculator://examples'' ''Usage Examples''
        ''Example calculations and tool usage'' ''text/markdown'']"

text \<open>
  A triple-quoted literal that opens and closes on lines of its own: a newline, then
  every line of the text followed by a newline.
\<close>

definition triple_quoted :: "string list \<Rightarrow> string" where
  "triple_quoted ls = CHR 0x0A # concat (map (\<lambda>l. l @ [CHR 0x0A]) ls)"

definition info :: string where
  \<open>info = triple_quoted [
     ''Simple Calculator MCP Server'',
     ''============================'',
     '''',
     ''This is an educational MCP server that demonstrates:'',
     ''- Basic tool implementation'',
     ''- Input validation and error handling'',
     ''- Mathematical operations'',
     ''- Resource management'',
     ''- Logging and debugging'',
     '''',
     ''Version: 1.0.0'',
     ''Author: MCP Learning Project'',
     '''',
     ''Available Tools:'',
     ''- add: Add two numbers'',
     ''- subtract: Subtract two numbers  '',
     ''- multiply: Multiply two numbers'',
     ''- divide: Divide two numbers'',
     ''- power: Raise to power'',
     ''- square_root: Calculate square root'',
     ''- random_number: Generate random number'',
     ''- factorial: Calculate factorial'']\<close>

definition help_text :: string where
  \<open>help_text = triple_quoted [
     ''# Simple Calculator MCP Server Help'',
     '''',
     ''## Available Tools'',
     '''',
     ''### Basic Arithmetic'',
     '''',
     ''#### add'',
     ''Add two numbers together.'',
     '''',
     ''**Parameters:**'',
     ''- `a` (number): First number to add'',
     ''- `b` (number): Second number to add'',
     '''',
     ''**Example:**'',
     ''```json'',
     ''{'',
     ''  "a": 5,'',
     ''  "b": 3'',
     ''}'',
     ''```'',
     ''**Result:** `5 + 3 = 8`'',
     '''',
     ''#### subtract'',
     ''Subtract second number from first number.'',
     '''',
     ''**Parameters:**'',
     ''- `a` (number): Number to subtract from'',
     ''- `b` (number): Number to subtract'',
     '''',
     ''**Example:**'',
     ''```json'',
     ''{'',
     ''  "a": 10,'',
     ''  "b": 4'',
     ''}'',
     ''```'',
     ''**Result:** `10 - 4 = 6`'',
     '''',
     ''#### multiply'',
     ''Multiply two numbers.'',
     '''',
     ''**Parameters:**'',
     ''- `a` (number): First number to multiply'',
     ''- `b` (number): Second number to multiply'',
     '''',
     ''**Example:**'',
     ''```json'',
     ''{'',
     ''  "a": 6,'',
     ''  "b": 7'',
     ''}'',
     ''```'',
     ''**Result:** `6 '' @ times_sign @ '' 7 = 42`'',
     '''',
     ''#### divide'',
     ''Divide first number by second number.'',
     '''',
     ''**Parameters:**'',
     ''- `a` (number): Dividend (number to be divided)'',
     ''- `b` (number): Divisor (number to divide by)'',
     '''',
     ''**Example:**'',
     ''```json'',
     ''{'',
     ''  "a": 15,'',
     ''  "b": 3'',
     ''}'',
     ''```'',
     ''**Result:** `15 '' @ division_sign @ '' 3 = 5`'',
     '''',
     ''**Note:** Division by zero will return an error.'',
     '''',
     ''### Advanced Operations'',
     '''',
     ''#### power'',
     ''Raise first number to the power of second number.'',
     '''',
     ''**Parameters:**'',
     ''- `base` (number): Base number'',
     ''- `exponent` (number): Exponent (power)'',
     '''',
     ''**Example:**'',
     ''```json'',
     ''{'',
     ''  "base": 2,'',
     ''  "exponent": 8'',
     ''}'',
     ''```'',
     ''**Result:** `2^8 = 256`'',
     '''',
     ''#### square_root'',
     ''Calculate the square root of a number.'',
     '''',
     ''**Parameters:**'',
     ''- `number` (number): Number to find square root of'',
     '''',
     ''**Example:**'',
     ''```json'',
     ''{'',
     ''  "number": 64'',
     ''}'',
     ''```'',
     ''**Result:** `'' @ sqrt_sign @ ''64 = 8.0`'',
     '''',
     ''**Note:** Negative numbers will return an error.'',
     '''',
     ''#### factorial'',
     ''Calculate the factorial of a number (n!).'',
     '''',
     ''**Parameters:**'',
     ''- `number` (integer): Number to calculate factorial for'',
     '''',
     ''**Example:**'',
     ''```json'',
     ''{'',
     ''  "number": 5'',
     ''}'',
     ''```'',
     ''**Result:** `5! = 120`'',
     '''',
     ''**Note:** Only non-negative integers are supported.'',
     '''',
     ''#### random_number'',
     ''Generate a random number between min and max (inclusive).'',
     '''',
     ''**Parameters:**'',
     ''- `min` (number, optional): Minimum value (default: 0)'',
     ''- `max` (number, optional): Maximum value (default: 100)'',
     '''',
     ''**Example:**'',
     ''```json'',
     ''{'',
     ''  "min": 1,'',
     ''  "max": 10'',
     ''}'',
     ''```'',
     ''**Result:** `Random number between 1 and 10: 7`'',
     '''',
     ''## Available Resources'',
     '''',
     ''- `calculator://info` - Server information'',
     ''- `calculator://help` - This help documentation  '',
     ''- `calculator://examples` - Usage examples'',
     '''',
     ''## Error Handling'',
     '''',
     ''This server includes comprehensive error handling for:'',
     ''- Division by zero'',
     ''- Square root of negative numbers'',
     ''- Factorial of negative numbers'',
     ''- Invalid input ranges'',
     ''- Unknown tool names'',
     '''',
     ''## Usage'',
     '''',
     ''Configure this server in your MCP client and start performing calculations!'']\<close>

definition examples :: string where
  \<open>examples = triple_quoted [
     ''# Calculator Usage Examples'',
     '''',
     ''## Basic Arithmetic Examples'',
     '''',
     ''### Addition'',
     ''```json'',
     ''{"tool": "add", "arguments": {"a": 25, "b": 17}}'',
     ''```'',
     ''Result: `25 + 17 = 42`'',
     '''',
     ''### Subtraction  '',
     ''```json'',
     ''{"tool": "subtract", "arguments": {"a": 100, "b": 23}}'',
     ''```'',
     ''Result: `100 - 23 = 77`'',
     '''',
     ''### Multiplication'',
     ''```json'',
     ''{"tool": "multiply", "arguments": {"a": 12, "b": 8}}'',
     ''```'',
     ''Result: `12 '' @ times_sign @ '' 8 = 96`'',
     '''',
     ''### Division'',
     ''```json'',
     ''{"tool": "divide", "arguments": {"a": 144, "b": 12}}'',
     ''```'',
     ''Result: `144 '' @ division_sign @ '' 12 = 12.0`'',
     '''',
     ''## Advanced Examples'',
     '''',
     ''### Powers'',
     ''```json'',
     ''{"tool": "power", "arguments": {"base": 3, "exponent": 4}}'',
     ''```'',
     ''Result: `3^4 = 81`'',
     '''',
     ''### Square Roots'',
     ''```json'',
     ''{"tool": "square_root", "arguments": {"number": 121}}'',
     ''```'',
     ''Result: `'' @ sqrt_sign @ ''121 = 11.0`'',
     '''',
     ''### Factorials'',
     ''```json'',
     ''{"tool": "factorial", "arguments": {"number": 6}}'',
     ''```'',
     ''Result: `6! = 720`'',
     '''',
     ''### Random Numbers'',
     ''```json'',
     ''{"tool": "random_number", "arguments": {"min": 1, "max": 20}}'',
     ''```'',
     ''Result: `Random number between 1 and 20: 13`'',
     '''',
     ''## Error Examples'',
     '''',
     ''### Division by Zero'',
     ''```json'',
     ''{"tool": "divide", "arguments": {"a": 10, "b": 0}}'',
     ''```'',
     ''Result: `Error: Division by zero is not allowed`'',
     '''',
     ''### Negative Square Root'',
     ''```json'',
     ''{"tool": "square_root", "arguments": {"number": -4}}'',
     ''```'',
     ''Result: `Error: Cannot calculate square root of negative number`'',
     '''',
     ''### Negative Factorial'',
     ''```json'',
     ''{"tool": "factorial", "arguments": {"number": -1}}'',
     ''```'',
     ''Result: `Error: Factorial is not defined for negative numbers`'',
     '''',
     ''## Learning Notes'',
     '''',
     ''This server demonstrates several important MCP concepts:'',
     '''',
     ''1. **Tool Definition**: Each tool has a clear name, description, and input schema'',
     ''2. **Input Validation**: The server checks for valid inputs and handles errors gracefully'',
     ''3. **Error Handling**: Comprehensive error messages help users understand what went wrong'',
     ''4. **Resource Management**: The server provides helpful documentation as resources'',
     ''5. **Logging**: All operations are logged for debugging purposes'',
     '''',
     ''Try experimenting with different values and see how the server responds!'']\<close>

text \<open>The body of the \<^verbatim>\<open>try\<close> statement, and the handler with its \<^verbatim>\<open>except\<close> clause.\<close>

definition read_resource_try :: "string \<Rightarrow> exn + ReadResourceResult" where
  "read_resource_try uri =
     (if uri = ''calculator://info''
        then Inr (ReadResourceResult [TextResourceContents ''text'' info uri])
      else if uri = ''calculator://help''
        then Inr (ReadResourceResult [TextResourceContents ''text'' help_text uri])
      else if uri = ''calculator://examples''
        then Inr (ReadResourceResult [TextResourceContents ''text'' examples uri])
      else Inr (ReadResourceResult
             [TextResourceContents ''text'' (''Resource not found: '' @ uri) uri]))"

definition handle_read_resource :: "string \<Rightarrow> ReadResourceResult" where
  "handle_read_resource uri =
     (case read_resource_try uri of
        Inr result \<Rightarrow> result
      | Inl e \<Rightarrow> ReadResourceResult [TextResourceContents ''text'' (''Error: '' @ exn_str e) uri])"

section \<open>The template server: \<^verbatim>\<open>template/server.py\<close>\<close>

text \<open>
  The \<^verbatim>\<open>calculate\<close> tool calls \<^verbatim>\<open>eval\<close> on its argument, which can run any Python. The
  outcome of running Python is a value, an exception that is an instance of
  \<^verbatim>\<open>Exception\<close>, or an exception that is not: \<^verbatim>\<open>SystemExit\<close>, \<^verbatim>\<open>KeyboardInterrupt\<close> and
  \<^verbatim>\<open>GeneratorExit\<close> derive from \<^verbatim>\<open>BaseException\<close> only, and \<^verbatim>\<open>except Exception\<close> does not
  catch them.
\<close>

datatype 'a outcome = Returns 'a | Raises exn | Exits exn

definition bind_outcome :: "'a outcome \<Rightarrow> ('a \<Rightarrow> 'b outcome) \<Rightarrow> 'b outcome" where
  "bind_outcome m f = (case m of Returns v \<Rightarrow> f v | Raises e \<Rightarrow> Raises e | Exits e \<Rightarrow> Exits e)"

text \<open>\<^verbatim>\<open>try: m except Exception as e: h\<close>\<close>

definition except_Exception :: "'a outcome \<Rightarrow> (exn \<Rightarrow> 'a outcome) \<Rightarrow> 'a outcome" where
  "except_Exception m h = (case m of Returns v \<Rightarrow> Returns v | Raises e \<Rightarrow> h e | Exits e \<Rightarrow> Exits e)"

text \<open>
  The evaluator is a parameter: \<^verbatim>\<open>eval\<close> takes the argument as it came (a string, or
  whatever the client sent) and yields a Python object of some type \<open>'o\<close>; formatting
  that object in the f-string runs the object's own code.
\<close>

record ('f, 'o) evaluator =
  ev_eval :: "'f pyval \<Rightarrow> 'o outcome"
  ev_format :: "'o \<Rightarrow> string outcome"

subsection \<open>\<^verbatim>\<open>handle_list_tools\<close>\<close>

definition template_handle_list_tools :: "Tool list" where
  "template_handle_list_tools =
     [Tool ''echo'' ''Echo back the provided text''
        (InputSchema ''object''
           [(''text'', Property ''string'' ''Text to echo back'' None)]
           [''text'']),
      Tool ''calculate'' ''Perform basic arithmetic calculations''
        (InputSchema ''object''
           [(''expression'', Property ''string''
               (''Mathematical expression to evaluate (e.g., '' @ [CHR 0x27] @ ''2 + 2''
                  @ [CHR 0x27] @ '')'') None)]
           [''expression''])]"

subsection \<open>\<^verbatim>\<open>handle_call_tool\<close>\<close>

definition template_tool_echo ::
  "'f runtime \<Rightarrow> (string \<rightharpoonup> 'f pyval) \<Rightarrow> CallToolResult outcome" where
  "template_tool_echo rt arguments =
     (let text = dict_get arguments ''text'' (PStr '''')
      in Returns (CallToolResult [TextContent ''text'' (''Echo: '' @ py_str rt text)]))"

definition template_tool_calculate ::
  "('f, 'o) evaluator \<Rightarrow> (string \<rightharpoonup> 'f pyval) \<Rightarrow> CallToolResult outcome" where
  "template_tool_calculate ev arguments =
     (let expression = dict_get arguments ''expression'' (PStr '''')
      in except_Exception
           (bind_outcome (ev_eval ev expression) (\<lambda>result.
            bind_outcome (ev_format ev result) (\<lambda>shown.
              Returns (CallToolResult [TextContent ''text'' (''Result: '' @ shown)]))))
           (\<lambda>e. Returns (CallToolResult [TextContent ''text'' (''Error: '' @ exn_str e)])))"

definition template_call_tool_try ::
  "'f runtime \<Rightarrow> ('f, 'o) evaluator \<Rightarrow> string \<Rightarrow> (string \<rightharpoonup> 'f pyval) \<Rightarrow> CallToolResult outcome" where
  "template_call_tool_try rt ev name arguments =
     (if name = ''echo'' then template_tool_echo rt arguments
      else if name = ''calculate'' then template_tool_calculate ev arguments
      else Returns (CallToolResult [TextContent ''text'' (''Unknown tool: '' @ name)]))"

definition template_handle_call_tool ::
  "'f runtime \<Rightarrow> ('f, 'o) evaluator \<Rightarrow> string \<Rightarrow> (string \<rightharpoonup> 'f pyval) \<Rightarrow> CallToolResult outcome" where
  "template_handle_call_tool rt ev name arguments =
     except_Exception (template_call_tool_try rt ev name arguments)
       (\<lambda>e. Returns (CallToolResult [TextContent ''text'' (''Error: '' @ exn_str e)]))"

subsection \<open>\<^verbatim>\<open>handle_list_resources\<close> and \<^verbatim>\<open>handle_read_resource\<close>\<close>

definition template_handle_list_resources :: "Resource list" where
  "template_handle_list_resources =
     [Resource ''template://info'' ''Server Information''
        ''Information about this template server'' ''text/plain'',
      Resource ''template://help'' ''Help Documentation''
        ''Help and usage information'' ''text/markdown'']"





section \<open>A sample interpreter\<close>

text \<open>
  A concrete runtime, for running the handlers on concrete requests. Its floats are exact
  rationals: sums, differences, products, quotients, integer powers, comparisons and
  truncation are computed exactly, which is what IEEE doubles give whenever the exact
  result is a double (as on every request evaluated below). Operands of other types
  raise the \<^verbatim>\<open>TypeError\<close> CPython 3 raises. Where the exact result is not rational (a
  root of a non-square, a fractional power) and for \<^verbatim>\<open>int\<close> of a string, the sample
  interpreter has no answer and says so with a \<^verbatim>\<open>NotImplementedError\<close>; no statement
  below evaluates it there. Its random source draws the lower bound.
\<close>

fun as_rat :: "rat pyval \<Rightarrow> rat option" where
  "as_rat (PInt i) = Some (of_int i)"
| "as_rat (PBool b) = Some (if b then 1 else 0)"
| "as_rat (PFloat q) = Some q"
| "as_rat PNone = None"
| "as_rat (PStr s) = None"

fun type_name :: "'f pyval \<Rightarrow> string" where
  "type_name PNone = ''NoneType''"
| "type_name (PBool b) = ''bool''"
| "type_name (PInt i) = ''int''"
| "type_name (PFloat x) = ''float''"
| "type_name (PStr s) = ''str''"

definition quoted :: "string \<Rightarrow> string" where
  "quoted s = [CHR 0x27] @ s @ [CHR 0x27]"

definition unsupported_operand :: "string \<Rightarrow> 'f pyval \<Rightarrow> 'f pyval \<Rightarrow> exn" where
  "unsupported_operand opr x y =
     Exn ''TypeError'' (''unsupported operand type(s) for '' @ opr @ '': ''
       @ quoted (type_name x) @ '' and '' @ quoted (type_name y))"

definition not_supported_between :: "string \<Rightarrow> 'f pyval \<Rightarrow> 'f pyval \<Rightarrow> exn" where
  "not_supported_between opr x y =
     Exn ''TypeError'' (quoted opr @ '' not supported between instances of ''
       @ quoted (type_name x) @ '' and '' @ quoted (type_name y))"

definition not_modelled :: exn where
  "not_modelled = Exn ''NotImplementedError'' ''sample interpreter''"

fun str_less :: "string \<Rightarrow> string \<Rightarrow> bool" where
  "str_less [] [] = False"
| "str_less [] (d # t) = True"
| "str_less (c # s) [] = False"
| "str_less (c # s) (d # t) =
     ((of_char c :: nat) < of_char d \<or> (c = d \<and> str_less s t))"

definition sample_add :: "rat pyval \<Rightarrow> rat pyval \<Rightarrow> exn + rat pyval" where
  "sample_add x y =
     (case (as_rat x, as_rat y) of
        (Some p, Some q) \<Rightarrow> Inr (PFloat (p + q))
      | _ \<Rightarrow>
        (case (x, y) of
           (PStr s, PStr t) \<Rightarrow> Inr (PStr (s @ t))
         | (PStr s, _) \<Rightarrow>
             Inl (Exn ''TypeError'' (''can only concatenate str (not '' @ [CHR 0x22] @ type_name y
               @ [CHR 0x22] @ '') to str''))
         | _ \<Rightarrow> Inl (unsupported_operand ''+'' x y)))"

definition sample_sub :: "rat pyval \<Rightarrow> rat pyval \<Rightarrow> exn + rat pyval" where
  "sample_sub x y =
     (case (as_rat x, as_rat y) of
        (Some p, Some q) \<Rightarrow> Inr (PFloat (p - q))
      | _ \<Rightarrow> Inl (unsupported_operand ''-'' x y))"

definition non_int_repeat :: "'f pyval \<Rightarrow> exn" where
  "non_int_repeat y =
     Exn ''TypeError'' (''can'' @ [CHR 0x27] @ ''t multiply sequence by non-int of type ''
       @ quoted (type_name y))"

definition sample_mul :: "rat pyval \<Rightarrow> rat pyval \<Rightarrow> exn + rat pyval" where
  "sample_mul x y =
     (case (as_rat x, as_rat y) of
        (Some p, Some q) \<Rightarrow> Inr (PFloat (p * q))
      | _ \<Rightarrow>
        (case (x, y) of
           (PStr s, _) \<Rightarrow>
             (case int_like y of
                Some n \<Rightarrow> Inr (PStr (concat (replicate (nat n) s)))
              | None \<Rightarrow> Inl (non_int_repeat y))
         | (_, PStr s) \<Rightarrow>
             (case int_like x of
                Some n \<Rightarrow> Inr (PStr (concat (replicate (nat n) s)))
              | None \<Rightarrow> Inl (non_int_repeat x))
         | _ \<Rightarrow> Inl (unsupported_operand ''*'' x y)))"

definition sample_truediv :: "rat pyval \<Rightarrow> rat pyval \<Rightarrow> exn + rat pyval" where
  "sample_truediv x y =
     (case (as_rat x, as_rat y) of
        (Some p, Some q) \<Rightarrow>
          if q = 0 then Inl (Exn ''ZeroDivisionError'' ''division by zero'')
          else Inr (PFloat (p / q))
      | _ \<Rightarrow> Inl (unsupported_operand ''/'' x y))"

definition sample_pow :: "rat pyval \<Rightarrow> rat pyval \<Rightarrow> exn + rat pyval" where
  "sample_pow x y =
     (case (as_rat x, as_rat y) of
        (Some p, Some q) \<Rightarrow>
          if q \<noteq> of_int \<lfloor>q\<rfloor> then Inl not_modelled
          else if 0 \<le> q then Inr (PFloat (p ^ nat \<lfloor>q\<rfloor>))
          else if p = 0
            then Inl (Exn ''ZeroDivisionError'' ''0.0 cannot be raised to a negative power'')
          else Inr (PFloat (1 / p ^ nat (- \<lfloor>q\<rfloor>)))
      | _ \<Rightarrow> Inl (unsupported_operand ''** or pow()'' x y))"

definition sample_lt :: "rat pyval \<Rightarrow> rat pyval \<Rightarrow> exn + bool" where
  "sample_lt x y =
     (case (as_rat x, as_rat y) of
        (Some p, Some q) \<Rightarrow> Inr (p < q)
      | _ \<Rightarrow>
        (case (x, y) of
           (PStr s, PStr t) \<Rightarrow> Inr (str_less s t)
         | _ \<Rightarrow> Inl (not_supported_between ''<'' x y)))"

definition sample_gt :: "rat pyval \<Rightarrow> rat pyval \<Rightarrow> exn + bool" where
  "sample_gt x y =
     (case (as_rat x, as_rat y) of
        (Some p, Some q) \<Rightarrow> Inr (p > q)
      | _ \<Rightarrow>
        (case (x, y) of
           (PStr s, PStr t) \<Rightarrow> Inr (str_less t s)
         | _ \<Rightarrow> Inl (not_supported_between ''>'' x y)))"

primrec isqrt_upto :: "nat \<Rightarrow> nat \<Rightarrow> nat" where
  "isqrt_upto n 0 = 0"
| "isqrt_upto n (Suc k) = (if Suc k * Suc k \<le> n then Suc k else isqrt_upto n k)"

definition sample_sqrt :: "rat pyval \<Rightarrow> exn + rat pyval" where
  "sample_sqrt x =
     (case as_rat x of
        None \<Rightarrow> Inl (Exn ''TypeError'' (''must be real number, not '' @ type_name x))
      | Some p \<Rightarrow>
          if p < 0 then Inl (Exn ''ValueError'' ''math domain error'')
          else (let (a, b) = quotient_of p;
                    r = isqrt_upto (nat a) (nat a);
                    s = isqrt_upto (nat b) (nat b)
                in if int (r * r) = a \<and> int (s * s) = b
                   then Inr (PFloat (of_nat r / of_nat s))
                   else Inl not_modelled))"

definition sample_int :: "rat pyval \<Rightarrow> exn + int" where
  "sample_int x =
     (case x of
        PFloat q \<Rightarrow> Inr (if 0 \<le> q then \<lfloor>q\<rfloor> else \<lceil>q\<rceil>)
      | PStr s \<Rightarrow> Inl not_modelled
      | PNone \<Rightarrow>
          Inl (Exn ''TypeError''
            (''int() argument must be a string, a bytes-like object or a real number, not ''
               @ quoted (type_name x)))
      | PInt i \<Rightarrow> Inr i
      | PBool b \<Rightarrow> Inr (if b then 1 else 0))"

text \<open>
  \<^verbatim>\<open>str\<close> of a float, in positional notation: the integer part, a point and the digits
  of the fraction (at least one, at most sixteen).
\<close>

fun frac_digits :: "nat \<Rightarrow> rat \<Rightarrow> string" where
  "frac_digits 0 r = []"
| "frac_digits (Suc n) r =
     (if r = 0 then []
      else (let d = \<lfloor>r * 10\<rfloor> in digit_char (nat d) # frac_digits n (r * 10 - of_int d)))"

definition sample_float_str :: "rat \<Rightarrow> string" where
  "sample_float_str q =
     (let m = \<bar>q\<bar>;
          whole = \<lfloor>m\<rfloor>;
          frac = m - of_int whole
      in (if q < 0 then ''-'' else []) @ str_nat (nat whole) @ ''.''
           @ (if frac = 0 then ''0'' else frac_digits 16 frac))"

definition sample_randint :: "int \<Rightarrow> int \<Rightarrow> exn + int" where
  "sample_randint a b =
     (if a \<le> b then Inr a
      else Inl (Exn ''ValueError'' (''empty range for randrange() ('' @ str_int a @ '', ''
             @ str_int (b + 1) @ '', '' @ str_int (b + 1 - a) @ '')'')))"

definition sample_rt :: "rat runtime" where
  "sample_rt = \<lparr>
     rt_add = sample_add,
     rt_sub = sample_sub,
     rt_mul = sample_mul,
     rt_truediv = sample_truediv,
     rt_pow = sample_pow,
     rt_lt = sample_lt,
     rt_gt = sample_gt,
     rt_float_is_zero = (\<lambda>q. q = 0),
     rt_sqrt = sample_sqrt,
     rt_int = sample_int,
     rt_float_str = sample_float_str,
     rt_randint = sample_randint \<rparr>"

text \<open>
  A sample evaluator, defined on three expressions: a sum, a division by zero, and a
  call of \<^verbatim>\<open>exit\<close>, the built-in that raises \<^verbatim>\<open>SystemExit\<close>. The objects it yields are
  values, formatted by \<^verbatim>\<open>str\<close>.
\<close>

definition sample_eval :: "rat pyval \<Rightarrow> rat pyval outcome" where
  "sample_eval expression =
     (case expression of
        PStr s \<Rightarrow>
          if s = ''2 + 2'' then Returns (PInt 4)
          else if s = ''1/0'' then Raises (Exn ''ZeroDivisionError'' ''division by zero'')
          else if s = ''exit()'' then Exits (Exn ''SystemExit'' ''None'')
          else Raises not_modelled
      | _ \<Rightarrow> Raises (Exn ''TypeError'' ''eval() arg 1 must be a string, bytes or code object''))"

definition sample_ev :: "(rat, rat pyval) evaluator" where
  "sample_ev = \<lparr> ev_eval = sample_eval, ev_format = (\<lambda>v. Returns (py_str sample_rt v)) \<rparr>"

section \<open>Terms of the claims\<close>

text \<open>
  The default each \<^verbatim>\<open>arguments.get(parameter, default)\<close> of the calculator's
  \<^verbatim>\<open>handle_call_tool\<close> gives: 1 for the divisor \<^verbatim>\<open>b\<close> of \<^verbatim>\<open>divide\<close> and for \<^verbatim>\<open>exponent\<close>,
  100 for \<^verbatim>\<open>max\<close>, and 0 for every other parameter.
\<close>

definition handler_default :: "string \<Rightarrow> string \<Rightarrow> 'f pyval" where
  "handler_default name p =
     (if name = ''divide'' \<and> p = ''b'' then PInt 1
      else if name = ''power'' \<and> p = ''exponent'' then PInt 1
      else if name = ''random_number'' \<and> p = ''max'' then PInt 100
      else PInt 0)"

text \<open>A text names a parameter when the parameter's name occurs in it.\<close>

definition mentions :: "string \<Rightarrow> string \<Rightarrow> bool" where
  "mentions p txt = list_ex (\<lambda>i. take (length p) (drop i txt) = p) [0..<Suc (length txt)]"

section \<open>Properties\<close>

subsection \<open>The tool branches, one by one\<close>


subsection \<open>Absent arguments\<close>

lemma dict_get_absent: "d p = None \<Longrightarrow> dict_get d p dflt = dflt"
  by (simp add: dict_get_def)

lemma dict_get_fill:
  "d p = None \<Longrightarrow>
   dict_get (d(p \<mapsto> v)) k dflt = (if k = p \<and> v \<noteq> dflt then v else dict_get d k dflt)"
  by (auto simp add: dict_get_def)

lemma tool_add_default:
  "arguments p = None \<Longrightarrow>
   tool_add rt (arguments(p \<mapsto> handler_default ''add'' p)) = tool_add rt arguments"
  by (simp add: tool_add_def dict_get_fill handler_default_def cong: conj_cong)

lemma tool_subtract_default:
  "arguments p = None \<Longrightarrow>
   tool_subtract rt (arguments(p \<mapsto> handler_default ''subtract'' p)) = tool_subtract rt arguments"
  by (simp add: tool_subtract_def dict_get_fill handler_default_def cong: conj_cong)

lemma tool_multiply_default:
  "arguments p = None \<Longrightarrow>
   tool_multiply rt (arguments(p \<mapsto> handler_default ''multiply'' p)) = tool_multiply rt arguments"
  by (simp add: tool_multiply_def dict_get_fill handler_default_def cong: conj_cong)

lemma tool_divide_default:
  "arguments p = None \<Longrightarrow>
   tool_divide rt (arguments(p \<mapsto> handler_default ''divide'' p)) = tool_divide rt arguments"
  by (simp add: tool_divide_def dict_get_fill handler_default_def cong: conj_cong)

lemma tool_power_default:
  "arguments p = None \<Longrightarrow>
   tool_power rt (arguments(p \<mapsto> handler_default ''power'' p)) = tool_power rt arguments"
  by (simp add: tool_power_def dict_get_fill handler_default_def cong: conj_cong)

lemma tool_square_root_default:
  "arguments p = None \<Longrightarrow>
   tool_square_root rt (arguments(p \<mapsto> handler_default ''square_root'' p))
     = tool_square_root rt arguments"
  by (simp add: tool_square_root_def dict_get_fill handler_default_def cong: conj_cong)

lemma tool_random_number_default:
  "arguments p = None \<Longrightarrow>
   tool_random_number rt (arguments(p \<mapsto> handler_default ''random_number'' p))
     = tool_random_number rt arguments"
  by (simp add: tool_random_number_def dict_get_fill handler_default_def cong: conj_cong)

lemma tool_factorial_default:
  "arguments p = None \<Longrightarrow>
   tool_factorial rt (arguments(p \<mapsto> handler_default ''factorial'' p))
     = tool_factorial rt arguments"
  by (simp add: tool_factorial_def dict_get_fill handler_default_def cong: conj_cong)

lemma call_tool_try_default:
  "arguments p = None \<Longrightarrow>
   call_tool_try rt name (arguments(p \<mapsto> handler_default name p))
     = call_tool_try rt name arguments"
  by (simp add: call_tool_try_def tool_add_default tool_subtract_default tool_multiply_default
      tool_divide_default tool_power_default tool_square_root_default
      tool_random_number_default tool_factorial_default)

subsection \<open>Names outside the catalog\<close>

lemma call_tool_try_unknown:
  "name \<notin> set (map tool_name handle_list_tools) \<Longrightarrow>
   call_tool_try rt name arguments
     = Inr (CallToolResult [TextContent ''text'' (''Unknown tool: '' @ name)])"
  by (auto simp add: handle_list_tools_def call_tool_try_def)

lemma template_call_tool_try_unknown:
  "name \<notin> set (map tool_name template_handle_list_tools) \<Longrightarrow>
   template_call_tool_try rt ev name arguments
     = Returns (CallToolResult [TextContent ''text'' (''Unknown tool: '' @ name)])"
  by (auto simp add: template_handle_list_tools_def template_call_tool_try_def)

subsection \<open>The \<^verbatim>\<open>divide\<close> branch\<close>




subsection \<open>The \<^verbatim>\<open>calculate\<close> branch of the template\<close>

lemma calculate_outcome:
  "arguments ''expression'' = Some x \<Longrightarrow>
   template_handle_call_tool rt ev ''calculate'' arguments =
     (case ev_eval ev x of
        Returns v \<Rightarrow>
          (case ev_format ev v of
             Returns shown \<Rightarrow> Returns (CallToolResult [TextContent ''text'' (''Result: '' @ shown)])
           | Raises e \<Rightarrow> Returns (CallToolResult [TextContent ''text'' (''Error: '' @ exn_str e)])
           | Exits e \<Rightarrow> Exits e)
      | Raises e \<Rightarrow> Returns (CallToolResult [TextContent ''text'' (''Error: '' @ exn_str e)])
      | Exits e \<Rightarrow> Exits e)"
  by (simp add: template_handle_call_tool_def template_call_tool_try_def
      template_tool_calculate_def dict_get_def except_Exception_def bind_outcome_def
      split: outcome.splits)

lemma template_never_raises:
  "template_handle_call_tool rt ev name arguments \<noteq> Raises e"
  by (simp add: template_handle_call_tool_def except_Exception_def split: outcome.splits)

subsection \<open>Every branch returns one block\<close>














subsection \<open>No tool answers as the unknown name does\<close>






















subsection \<open>Claims\<close>

text \<open>
  Claim C1, as stated: a call that omits a parameter the schema declares required (\<^verbatim>\<open>add\<close>
  with \<open>{a: 10}\<close>) is answered with a validation failure that names the parameter, and
  the handler is not invoked. The calculator's handler does not read the schema: the
  call below runs the \<^verbatim>\<open>add\<close> branch, and the answer is a sum that does not name \<^verbatim>\<open>b\<close>.
\<close>

theorem add_missing_b_counterexample:
  "handle_call_tool sample_rt ''add'' [''a'' \<mapsto> PInt 10]
     = CallToolResult [TextContent ''text'' ''10 + 0 = 10'']
   \<and> \<not> mentions ''b'' ''10 + 0 = 10''"
  by code_simp

text \<open>
  Claim C1, amended: a call that omits a parameter is not rejected and the handler is
  invoked; the omitted parameter takes the default of the handler's own
  \<^verbatim>\<open>arguments.get\<close>, so the answer is the answer to the call with that default supplied.
\<close>

theorem missing_parameter_takes_default:
  "arguments p = None \<Longrightarrow>
   handle_call_tool rt name arguments
     = handle_call_tool rt name (arguments(p \<mapsto> handler_default name p))"
  by (simp add: handle_call_tool_def call_tool_try_default)

theorem missing_parameter_takes_default_witness:
  "[''a'' \<mapsto> PInt 10 :: rat pyval] ''b'' = None
   \<and> handle_call_tool sample_rt ''add'' [''a'' \<mapsto> PInt 10]
       = handle_call_tool sample_rt ''add'' [''a'' \<mapsto> PInt 10, ''b'' \<mapsto> PInt 0]
   \<and> handle_call_tool sample_rt ''add'' [''a'' \<mapsto> PInt 10, ''b'' \<mapsto> PInt 0]
       = CallToolResult [TextContent ''text'' ''10 + 0 = 10'']"
proof -
  have n: "[''a'' \<mapsto> PInt 10 :: rat pyval] ''b'' = None" by simp
  have d: "handler_default ''add'' ''b'' = (PInt 0 :: rat pyval)"
    by (simp add: handler_default_def)
  have r: "handle_call_tool sample_rt ''add'' [''a'' \<mapsto> PInt 10, ''b'' \<mapsto> PInt 0]
       = CallToolResult [TextContent ''text'' ''10 + 0 = 10'']"
    by code_simp
  from missing_parameter_takes_default [of "[''a'' \<mapsto> PInt 10]" "''b''" sample_rt "''add''", OF n] n r
  show ?thesis unfolding d by blast
qed

text \<open>
  Claim C2. A call whose tool name is not in the catalog is answered, by both servers,
  with a result (not an exception) whose single text block is \<^verbatim>\<open>Unknown tool: \<close> followed
  by the name asked for.
\<close>

theorem unknown_tool_reply:
  "(name \<notin> set (map tool_name handle_list_tools) \<longrightarrow>
      handle_call_tool rt name arguments
        = CallToolResult [TextContent ''text'' (''Unknown tool: '' @ name)])
   \<and> (name \<notin> set (map tool_name template_handle_list_tools) \<longrightarrow>
      template_handle_call_tool rt ev name arguments
        = Returns (CallToolResult [TextContent ''text'' (''Unknown tool: '' @ name)]))"
  by (simp add: handle_call_tool_def call_tool_try_unknown template_handle_call_tool_def
      template_call_tool_try_unknown except_Exception_def)

theorem unknown_tool_reply_witness:
  "''unknown_tool'' \<notin> set (map tool_name handle_list_tools)
   \<and> handle_call_tool sample_rt ''unknown_tool'' [''test'' \<mapsto> PStr ''value'']
       = CallToolResult [TextContent ''text'' ''Unknown tool: unknown_tool'']
   \<and> ''unknown_tool'' \<notin> set (map tool_name template_handle_list_tools)
   \<and> template_handle_call_tool sample_rt sample_ev ''unknown_tool'' [''test'' \<mapsto> PStr ''value'']
       = Returns (CallToolResult [TextContent ''text'' ''Unknown tool: unknown_tool''])"
proof -
  have c: "''unknown_tool'' \<notin> set (map tool_name handle_list_tools)"
    by (simp add: handle_list_tools_def)
  have t: "''unknown_tool'' \<notin> set (map tool_name template_handle_list_tools)"
    by (simp add: template_handle_list_tools_def)
  from unknown_tool_reply [of "''unknown_tool''" sample_rt "[''test'' \<mapsto> PStr ''value'']" sample_ev]
    c t
  show ?thesis by simp
qed

text \<open>
  Claim C3, as stated: whatever exception a handler raises is caught and turned into a
  result, and never leaves the handler. Both servers catch with \<^verbatim>\<open>except Exception\<close>.
  The template's \<^verbatim>\<open>calculate\<close> evaluates its argument with \<^verbatim>\<open>eval\<close>; on the expression
  \<^verbatim>\<open>exit()\<close> the evaluation raises \<^verbatim>\<open>SystemExit\<close>, which is not an \<^verbatim>\<open>Exception\<close>, passes
  the inner and the outer clause and leaves the handler.
\<close>

theorem template_exit_counterexample:
  "template_handle_call_tool sample_rt sample_ev ''calculate'' [''expression'' \<mapsto> PStr ''exit()'']
     = Exits (Exn ''SystemExit'' ''None'')"
  by code_simp

text \<open>
  Claim C3, amended: every exception that is an instance of \<^verbatim>\<open>Exception\<close> is caught and
  turned into a result whose single text block is \<^verbatim>\<open>Error: \<close> followed by \<^verbatim>\<open>str(e)\<close>, a
  text that is never empty. In the calculator the one \<^verbatim>\<open>except\<close> clause of the handler
  does it for every branch; the handler is a function from the request alone, so the
  answer to a later request does not depend on the failed one. In the template no
  \<^verbatim>\<open>Exception\<close> leaves the handler either, and one raised by the evaluation is turned
  into the error text by the inner clause of \<^verbatim>\<open>calculate\<close>; an exception outside
  \<^verbatim>\<open>Exception\<close> raised by the evaluation leaves the handler.
\<close>

theorem exceptions_become_error_text:
  "(\<forall>name arguments e. call_tool_try rt name arguments = Inl e \<longrightarrow>
        handle_call_tool rt name arguments
          = CallToolResult [TextContent ''text'' (''Error: '' @ exn_str e)]
        \<and> ''Error: '' @ exn_str e \<noteq> [])
   \<and> (\<forall>name arguments e. template_handle_call_tool rt ev name arguments \<noteq> Raises e)
   \<and> (\<forall>arguments x e. arguments ''expression'' = Some x \<longrightarrow> ev_eval ev x = Raises e \<longrightarrow>
        template_handle_call_tool rt ev ''calculate'' arguments
          = Returns (CallToolResult [TextContent ''text'' (''Error: '' @ exn_str e)]))
   \<and> (\<forall>arguments x e. arguments ''expression'' = Some x \<longrightarrow> ev_eval ev x = Exits e \<longrightarrow>
        template_handle_call_tool rt ev ''calculate'' arguments = Exits e)"
  by (simp add: handle_call_tool_def template_never_raises calculate_outcome)

theorem exceptions_become_error_text_witness:
  "call_tool_try sample_rt ''factorial'' [''number'' \<mapsto> PStr ''abc'']
     = Inl (not_supported_between ''<'' (PStr ''abc'' :: rat pyval) (PInt 0))
   \<and> handle_call_tool sample_rt ''factorial'' [''number'' \<mapsto> PStr ''abc'']
     = CallToolResult [TextContent ''text''
         (''Error: '' @ quoted ''<'' @ '' not supported between instances of '' @ quoted ''str''
            @ '' and '' @ quoted ''int'')]
   \<and> [''expression'' \<mapsto> PStr ''1/0'' :: rat pyval] ''expression'' = Some (PStr ''1/0'')
   \<and> ev_eval sample_ev (PStr ''1/0'') = Raises (Exn ''ZeroDivisionError'' ''division by zero'')
   \<and> template_handle_call_tool sample_rt sample_ev ''calculate'' [''expression'' \<mapsto> PStr ''1/0'']
     = Returns (CallToolResult [TextContent ''text'' ''Error: division by zero''])
   \<and> [''expression'' \<mapsto> PStr ''exit()'' :: rat pyval] ''expression'' = Some (PStr ''exit()'')
   \<and> ev_eval sample_ev (PStr ''exit()'') = Exits (Exn ''SystemExit'' ''None'')
   \<and> template_handle_call_tool sample_rt sample_ev ''calculate''
         [''expression'' \<mapsto> PStr ''exit()''] = Exits (Exn ''SystemExit'' ''None'')"
proof -
  have r: "call_tool_try sample_rt ''factorial'' [''number'' \<mapsto> PStr ''abc'']
     = Inl (not_supported_between ''<'' (PStr ''abc'' :: rat pyval) (PInt 0))"
    by (simp add: call_tool_try_def tool_factorial_def dict_get_def bind_exn_def py_lt_def
        sample_rt_def sample_lt_def)
  have m: "''Error: '' @ exn_str (not_supported_between ''<'' (PStr ''abc'' :: rat pyval) (PInt 0))
     = ''Error: '' @ quoted ''<'' @ '' not supported between instances of '' @ quoted ''str''
            @ '' and '' @ quoted ''int''"
    by (simp add: not_supported_between_def)
  have a: "[''expression'' \<mapsto> PStr ''1/0'' :: rat pyval] ''expression'' = Some (PStr ''1/0'')"
    by simp
  have z: "ev_eval sample_ev (PStr ''1/0'') = Raises (Exn ''ZeroDivisionError'' ''division by zero'')"
    by (simp add: sample_ev_def sample_eval_def)
  have b: "[''expression'' \<mapsto> PStr ''exit()'' :: rat pyval] ''expression'' = Some (PStr ''exit()'')"
    by simp
  have x: "ev_eval sample_ev (PStr ''exit()'') = Exits (Exn ''SystemExit'' ''None'')"
    by (simp add: sample_ev_def sample_eval_def)
  note t = exceptions_become_error_text [of sample_rt sample_ev]
  note t1 = t [THEN conjunct1, rule_format,
      of "''factorial''" "[''number'' \<mapsto> PStr ''abc'']" _, OF r, THEN conjunct1, unfolded m]
  note t3 = t [THEN conjunct2, THEN conjunct2, THEN conjunct1, rule_format,
      of "[''expression'' \<mapsto> PStr ''1/0'']" "PStr ''1/0''" _, OF a z]
  note t4 = t [THEN conjunct2, THEN conjunct2, THEN conjunct2, rule_format,
      of "[''expression'' \<mapsto> PStr ''exit()'']" "PStr ''exit()''" _, OF b x]
  from r t1 a z t3 b x t4 show ?thesis by simp
qed




text \<open>
  Claim C6. Calling \<^verbatim>\<open>echo\<close> with \<open>{text: "hi"}\<close> returns the single text block
  \<^verbatim>\<open>Echo: hi\<close>; for every string \<open>s\<close>, a call whose \<^verbatim>\<open>text\<close> is \<open>s\<close> returns \<^verbatim>\<open>Echo: \<close> followed
  by \<open>s\<close>, whatever other arguments the call carries.
\<close>

theorem echo_reply:
  "template_handle_call_tool rt ev ''echo'' [''text'' \<mapsto> PStr ''hi'']
     = Returns (CallToolResult [TextContent ''text'' ''Echo: hi''])
   \<and> (\<forall>arguments s. arguments ''text'' = Some (PStr s) \<longrightarrow>
        template_handle_call_tool rt ev ''echo'' arguments
          = Returns (CallToolResult [TextContent ''text'' (''Echo: '' @ s)]))"
  by (simp add: template_handle_call_tool_def template_call_tool_try_def template_tool_echo_def
      except_Exception_def dict_get_def)

theorem echo_reply_witness:
  "[''text'' \<mapsto> PStr ''hello'', ''other'' \<mapsto> PInt 1 :: rat pyval] ''text'' = Some (PStr ''hello'')
   \<and> template_handle_call_tool sample_rt sample_ev ''echo''
         [''text'' \<mapsto> PStr ''hello'', ''other'' \<mapsto> PInt 1]
       = Returns (CallToolResult [TextContent ''text'' ''Echo: hello''])"
proof -
  have a: "[''text'' \<mapsto> PStr ''hello'', ''other'' \<mapsto> PInt 1 :: rat pyval] ''text''
             = Some (PStr ''hello'')"
    by simp
  from echo_reply [of sample_rt sample_ev, THEN conjunct2, rule_format,
      of "[''text'' \<mapsto> PStr ''hello'', ''other'' \<mapsto> PInt 1]" "''hello''", OF a] a
  show ?thesis by simp
qed


text \<open>
  Claim C8, as stated: a non-integral value for a parameter declared \<^verbatim>\<open>integer\<close>
  (\<^verbatim>\<open>factorial\<close> with \<open>{number: 2.5}\<close>) is rejected with a wrong-type failure and no result
  is computed from it. The handler does not read the schema: it truncates 2.5 to 2 and
  answers with the factorial of 2.
\<close>

theorem factorial_fraction_counterexample:
  "handle_call_tool sample_rt ''factorial'' [''number'' \<mapsto> PFloat (5 / 2)]
     = CallToolResult [TextContent ''text'' ''2.5! = 2'']"
  by code_simp

text \<open>
  Claim C8, amended: a float given as \<^verbatim>\<open>number\<close> is not rejected. When it is neither below
  0 nor above 170, the handler truncates it with \<^verbatim>\<open>int\<close> and answers with the float as
  written, \<^verbatim>\<open>! = \<close> and the factorial of the truncated value.
\<close>

theorem factorial_truncates:
  assumes "arguments ''number'' = Some (PFloat x)"
    and "py_lt rt (PFloat x) (PInt 0) = Inr False"
    and "py_gt rt (PFloat x) (PInt 170) = Inr False"
    and "py_int rt (PFloat x) = Inr n"
    and "0 \<le> n"
  shows "handle_call_tool rt ''factorial'' arguments
           = CallToolResult [TextContent ''text''
               (rt_float_str rt x @ ''! = '' @ str_int (int (fact (nat n))))]"
  using assms
  by (simp add: handle_call_tool_def call_tool_try_def tool_factorial_def dict_get_def
      bind_exn_def math_factorial_def)

theorem factorial_truncates_witness:
  "[''number'' \<mapsto> PFloat (5 / 2 :: rat)] ''number'' = Some (PFloat (5 / 2))
   \<and> py_lt sample_rt (PFloat (5 / 2)) (PInt 0) = Inr False
   \<and> py_gt sample_rt (PFloat (5 / 2)) (PInt 170) = Inr False
   \<and> py_int sample_rt (PFloat (5 / 2)) = Inr 2
   \<and> (0 :: int) \<le> 2
   \<and> handle_call_tool sample_rt ''factorial'' [''number'' \<mapsto> PFloat (5 / 2)]
       = CallToolResult [TextContent ''text'' ''2.5! = 2'']"
proof -
  have a: "[''number'' \<mapsto> PFloat (5 / 2 :: rat)] ''number'' = Some (PFloat (5 / 2))" by simp
  have l: "py_lt sample_rt (PFloat (5 / 2)) (PInt 0) = Inr False"
    by (simp add: py_lt_def sample_rt_def sample_lt_def)
  have g: "py_gt sample_rt (PFloat (5 / 2)) (PInt 170) = Inr False"
    by (simp add: py_gt_def sample_rt_def sample_gt_def)
  have i: "py_int sample_rt (PFloat (5 / 2)) = Inr 2"
    by code_simp
  have p: "(0 :: int) \<le> 2" by simp
  have t: "rt_float_str sample_rt (5 / 2) @ ''! = '' @ str_int (int (fact (nat 2))) = ''2.5! = 2''"
    by code_simp
  note factorial_truncates [of "[''number'' \<mapsto> PFloat (5 / 2)]" "5 / 2" sample_rt 2, OF a l g i p]
  from this [unfolded t] a l g i p show ?thesis by blast
qed





subsection \<open>Further properties\<close>

text \<open>
  In the calculator, every read of a URI outside the resource catalog is answered with
  \<^verbatim>\<open>Resource not found: \<close> followed by that URI, in a block tagged with that URI.
\<close>

theorem resource_miss_reply:
  "uri \<notin> set (map resource_uri handle_list_resources) \<Longrightarrow>
   handle_read_resource uri
     = ReadResourceResult [TextResourceContents ''text'' (''Resource not found: '' @ uri) uri]"
  by (auto simp add: handle_list_resources_def handle_read_resource_def read_resource_try_def)

theorem resource_miss_reply_witness:
  "''calculator://missing'' \<notin> set (map resource_uri handle_list_resources)
   \<and> handle_read_resource ''calculator://missing''
       = ReadResourceResult [TextResourceContents ''text''
           ''Resource not found: calculator://missing'' ''calculator://missing'']"
proof -
  have n: "''calculator://missing'' \<notin> set (map resource_uri handle_list_resources)"
    by (simp add: handle_list_resources_def)
  from resource_miss_reply [OF n] n show ?thesis by simp
qed

end
